theory Spec2Isabelle
  imports Main "HOL-Library.Extended_Nat"
begin

section \<open>The pull-request size labeller (.github/scripts/about-pr-test.js)\<close>

text \<open>
  The script fetches the statistics of one pull request, picks a size label from the
  table \<open>sizeCutoffs\<close>, adds that label and removes the other size labels. Its three
  parts are embedded below in the order of the source file: the table, the function
  \<open>getPullRequestSize\<close>, the function \<open>labelPullRequestWithSize\<close> and the
  top-level asynchronous function, here called \<open>main\<close>.

  Counts of files and lines are natural numbers: the hosted API delivers non-negative
  integers, far below the range where a JavaScript number stops being exact. The bound
  \<open>Infinity\<close> of the table is the element \<open>\<infinity>\<close> of the extended naturals.
\<close>

subsection \<open>The table of size cutoffs\<close>

record cutoff =
  maxFiles :: enat
  maxLines :: enat

text \<open>
  \<open>sizeCutoffs\<close> is an object literal with four string keys. \<open>Object.entries\<close> and
  \<open>Object.keys\<close> list string keys in the order they were written, so the object is
  an association list in that order.
\<close>

definition sizeCutoffs :: "(string \<times> cutoff) list" where
  "sizeCutoffs =
     [(''tiny'', \<lparr>maxFiles = 4, maxLines = 9\<rparr>),
      (''small'', \<lparr>maxFiles = 9, maxLines = 49\<rparr>),
      (''medium'', \<lparr>maxFiles = 9, maxLines = 249\<rparr>),
      (''large'', \<lparr>maxFiles = \<infinity>, maxLines = \<infinity>\<rparr>)]"

text \<open>
  The loop of \<open>getPullRequestSize\<close> (lines 53 to 57) over the entries of a table: the
  first entry whose two bounds hold gives the result. When the loop ends without a match
  the JavaScript function returns \<open>undefined\<close>, which is \<open>None\<close> here.
\<close>

fun sizeLoop :: "(string \<times> cutoff) list \<Rightarrow> nat \<Rightarrow> nat \<Rightarrow> string option" where
  "sizeLoop [] numberFilesChanged numberLinesChanged = None"
| "sizeLoop ((sz, c) # entries) numberFilesChanged numberLinesChanged =
     (if enat numberFilesChanged \<le> maxFiles c \<and> enat numberLinesChanged \<le> maxLines c
      then Some sz
      else sizeLoop entries numberFilesChanged numberLinesChanged)"

text \<open>\<open>Object.keys(sizeCutoffs)\<close>, the constant \<open>allSizes\<close> of the labelling function.\<close>

definition allSizes :: "string list" where
  "allSizes = map fst sizeCutoffs"

subsection \<open>The hosted API\<close>

text \<open>
  Modelled from the spec: the hosted source-control API behind \<open>octokit.request\<close>, which
  is a third-party service and not part of the repository. The spec (section 6) names
  three endpoints: "get pull request", which returns at least \<open>additions\<close>,
  \<open>deletions\<close> and \<open>changed_files\<close>; "add labels to issue/PR", which returns the
  resulting label list and leaves a label that is already present as it is; and "remove
  label from issue/PR". Any request may be rejected (network, authorisation, unknown pull
  request); a rejected request changes nothing and makes \<open>octokit.request\<close> throw.

  A pull request is addressed by owner, repository and number, in the order of the
  routes. The state of the service holds the pull requests, the log of the requests
  received so far, and an oracle that says which requests are rejected: the request that
  arrives when \<open>k\<close> requests have been logged is rejected when \<open>fails k\<close> holds.
\<close>

record pull =
  additions :: nat
  deletions :: nat
  changed_files :: nat
  labels :: "string list"

datatype request =
    GET_pull string string string
  | POST_labels string string string "string list"
  | DELETE_label string string string string

datatype error =
    InvalidSizeLabel "string option"
  | RequestError request

record remote =
  pulls :: "string \<times> string \<times> string \<Rightarrow> pull option"
  calls :: "request list"
  fails :: "nat \<Rightarrow> bool"

definition received :: "request \<Rightarrow> remote \<Rightarrow> remote" where
  "received q r = r\<lparr>calls := calls r @ [q]\<rparr>"

definition rejected :: "remote \<Rightarrow> bool" where
  "rejected r = fails r (length (calls r))"

definition attach :: "string \<Rightarrow> string list \<Rightarrow> string list" where
  "attach l ls = (if l \<in> set ls then ls else ls @ [l])"

definition get_pull ::
  "string \<Rightarrow> string \<Rightarrow> string \<Rightarrow> remote \<Rightarrow> (error + pull) \<times> remote" where
  "get_pull owner repo pull_number r =
     (let q = GET_pull owner repo pull_number in
      if rejected r then (Inl (RequestError q), received q r)
      else case pulls r (owner, repo, pull_number) of
             None \<Rightarrow> (Inl (RequestError q), received q r)
           | Some p \<Rightarrow> (Inr p, received q r))"

definition add_labels ::
  "string \<Rightarrow> string \<Rightarrow> string \<Rightarrow> string list \<Rightarrow> remote \<Rightarrow> (error + string list) \<times> remote" where
  "add_labels owner repo issue_number ls r =
     (let q = POST_labels owner repo issue_number ls in
      if rejected r then (Inl (RequestError q), received q r)
      else case pulls r (owner, repo, issue_number) of
             None \<Rightarrow> (Inl (RequestError q), received q r)
           | Some p \<Rightarrow>
               (let p' = p\<lparr>labels := fold attach ls (labels p)\<rparr> in
                (Inr (labels p'),
                 received q (r\<lparr>pulls := (pulls r)((owner, repo, issue_number) \<mapsto> p')\<rparr>))))"

definition remove_label ::
  "string \<Rightarrow> string \<Rightarrow> string \<Rightarrow> string \<Rightarrow> remote \<Rightarrow> (error + string list) \<times> remote" where
  "remove_label owner repo issue_number name r =
     (let q = DELETE_label owner repo issue_number name in
      if rejected r then (Inl (RequestError q), received q r)
      else case pulls r (owner, repo, issue_number) of
             None \<Rightarrow> (Inl (RequestError q), received q r)
           | Some p \<Rightarrow>
               (let p' = p\<lparr>labels := removeAll name (labels p)\<rparr> in
                (Inr (labels p'),
                 received q (r\<lparr>pulls := (pulls r)((owner, repo, issue_number) \<mapsto> p')\<rparr>))))"

subsection \<open>getPullRequestSize (lines 33 to 58)\<close>

text \<open>
  The Octokit instance is the handle on the service, so the state of the service takes
  its place as the last argument and is returned with the result. A rejected request
  throws out of the function: the result is then \<open>Inl\<close> of the error.
\<close>

definition getPullRequestSize ::
  "string \<Rightarrow> string \<Rightarrow> string \<Rightarrow> remote \<Rightarrow> (error + string option) \<times> remote" where
  "getPullRequestSize prNumber owner repo octokit =
     (case get_pull owner repo prNumber octokit of
        (Inl e, r) \<Rightarrow> (Inl e, r)
      | (Inr data, r) \<Rightarrow>
          (let numberLinesChanged = deletions data + additions data;
               numberFilesChanged = changed_files data
           in (Inr (sizeLoop sizeCutoffs numberFilesChanged numberLinesChanged), r)))"

subsection \<open>labelPullRequestWithSize (lines 79 to 133)\<close>

text \<open>
  The loop of lines 119 to 132: one awaited DELETE per label, in order; the first request
  that throws ends the loop and the function.
\<close>

fun removeLoop ::
  "string \<Rightarrow> string \<Rightarrow> string \<Rightarrow> string list \<Rightarrow> remote \<Rightarrow> (error + unit) \<times> remote" where
  "removeLoop prNumber owner repo [] r = (Inr (), r)"
| "removeLoop prNumber owner repo (label # labelsToRemove) r =
     (case remove_label owner repo prNumber label r of
        (Inl e, r') \<Rightarrow> (Inl e, r')
      | (Inr _, r') \<Rightarrow> removeLoop prNumber owner repo labelsToRemove r')"

text \<open>
  The argument \<open>size\<close> is whatever \<open>getPullRequestSize\<close> returned: a string, or
  \<open>undefined\<close> (\<open>None\<close>), which \<open>allSizes.includes\<close> does not find.
\<close>

definition labelPullRequestWithSize ::
  "string \<Rightarrow> string \<Rightarrow> string \<Rightarrow> string option \<Rightarrow> remote \<Rightarrow> (error + unit) \<times> remote" where
  "labelPullRequestWithSize prNumber owner repo size_arg octokit =
     (case size_arg of
        None \<Rightarrow> (Inl (InvalidSizeLabel size_arg), octokit)
      | Some sz \<Rightarrow>
          if sz \<notin> set allSizes then (Inl (InvalidSizeLabel size_arg), octokit)
          else
            (case add_labels owner repo prNumber [sz] octokit of
               (Inl e, r) \<Rightarrow> (Inl e, r)
             | (Inr data, r) \<Rightarrow>
                 (let currentLabels = data;
                      labelsToRemove =
                        filter (\<lambda>potentialSize.
                                  potentialSize \<noteq> sz \<and> potentialSize \<in> set currentLabels)
                               allSizes
                  in removeLoop prNumber owner repo labelsToRemove r)))"

subsection \<open>The top-level function (lines 135 to 175)\<close>

text \<open>
  The environment maps a variable name to its value, or to \<open>None\<close> when the variable is
  not set. \<open>falsy\<close> is the JavaScript test \<open>!v\<close> on such a value: true for
  \<open>undefined\<close> and for the empty string.

  A run ends with an exit status, the lines written with \<open>console.error\<close> and the state
  of the service. \<open>process.exit(1)\<close> ends the process at once; a run that reaches the end
  of the function exits with status 0. Creating the Octokit instance sends no request.
\<close>

datatype line =
    Line string
  | LineWith string error

record outcome =
  exitCode :: nat
  stderr :: "line list"
  world :: remote

definition falsy :: "string option \<Rightarrow> bool" where
  "falsy v = (case v of None \<Rightarrow> True | Some s \<Rightarrow> s = [])"

definition main :: "(string \<Rightarrow> string option) \<Rightarrow> remote \<Rightarrow> outcome" where
  "main env octokit =
     (let TOKEN = env ''TOKEN'';
          REPO_OWNER = env ''REPO_OWNER'';
          REPO_NAME = env ''REPO_NAME'';
          PR_NUMBER = env ''PR_NUMBER''
      in
      if falsy TOKEN \<or> falsy REPO_OWNER \<or> falsy REPO_NAME \<or> falsy PR_NUMBER
      then \<lparr>exitCode = 1,
            stderr = [Line ''Missing required environment variables.''],
            world = octokit\<rparr>
      else
        (case getPullRequestSize (the PR_NUMBER) (the REPO_OWNER) (the REPO_NAME) octokit of
           (Inl e, r) \<Rightarrow>
             \<lparr>exitCode = 1,
              stderr = [LineWith ''Error processing the pull request:'' e],
              world = r\<rparr>
         | (Inr prSize, r) \<Rightarrow>
             (case labelPullRequestWithSize (the PR_NUMBER) (the REPO_OWNER) (the REPO_NAME)
                     prSize r of
                (Inl e, r') \<Rightarrow>
                  \<lparr>exitCode = 1,
                   stderr = [LineWith ''Error processing the pull request:'' e],
                   world = r'\<rparr>
              | (Inr _, r') \<Rightarrow> \<lparr>exitCode = 0, stderr = [], world = r'\<rparr>)))"

subsection \<open>The classifier in the words of the specification\<close>

text \<open>
  Section 4.1 of the specification: "iterate the threshold table in its defined order;
  return the label of the first entry where \<open>filesChanged <= maxFiles AND linesChanged <=
  maxLines\<close>". \<open>find\<close> returns the first element of a list that satisfies a predicate.
\<close>

definition entryMatches :: "nat \<Rightarrow> nat \<Rightarrow> string \<times> cutoff \<Rightarrow> bool" where
  "entryMatches filesChanged linesChanged entry =
     (enat filesChanged \<le> maxFiles (snd entry) \<and> enat linesChanged \<le> maxLines (snd entry))"

definition classify_spec :: "nat \<Rightarrow> nat \<Rightarrow> string option" where
  "classify_spec filesChanged linesChanged =
     map_option fst (find (entryMatches filesChanged linesChanged) sizeCutoffs)"

subsection \<open>Example inputs\<close>

text \<open>
  One pull request, \<open>octo/hello#7\<close>, with three files changed, 42 lines changed and
  the labels small, medium and bug; a service that holds it, with a given oracle of
  rejected requests; and an environment with the four variables set.
\<close>

definition example_pull :: pull where
  "example_pull =
     \<lparr>additions = 30, deletions = 12, changed_files = 3,
      labels = [''small'', ''medium'', ''bug'']\<rparr>"

definition example_remote :: "(nat \<Rightarrow> bool) \<Rightarrow> remote" where
  "example_remote oracle =
     \<lparr>pulls = [(''octo'', ''hello'', ''7'') \<mapsto> example_pull], calls = [], fails = oracle\<rparr>"

definition example_env :: "string \<Rightarrow> string option" where
  "example_env =
     [''TOKEN'' \<mapsto> ''secret'', ''REPO_OWNER'' \<mapsto> ''octo'', ''REPO_NAME'' \<mapsto> ''hello'',
      ''PR_NUMBER'' \<mapsto> ''7'']"

section \<open>Properties\<close>

subsection \<open>The size classifier\<close>

lemma allSizes_eq: "allSizes = [''tiny'', ''small'', ''medium'', ''large'']"
  by (simp add: allSizes_def sizeCutoffs_def)

lemma sizeLoop_sizeCutoffs:
  "sizeLoop sizeCutoffs f l =
     (if f \<le> 4 \<and> l \<le> 9 then Some ''tiny''
      else if f \<le> 9 \<and> l \<le> 49 then Some ''small''
      else if f \<le> 9 \<and> l \<le> 249 then Some ''medium''
      else Some ''large'')"
  by (simp add: sizeCutoffs_def numeral_eq_enat)

text \<open>
  Claim C1. For every pair of non-negative integers (files changed, lines changed) the
  lookup in the table returns a label, that label is the only value the lookup returns
  for the pair, and it is one of tiny, small, medium, large: no input is left unmatched.
\<close>

theorem C1_classifier_total:
  "\<exists>!sz. sizeLoop sizeCutoffs filesChanged linesChanged = Some sz
      \<and> sz \<in> {''tiny'', ''small'', ''medium'', ''large''}"
  by (auto simp add: sizeLoop_sizeCutoffs)

text \<open>
  Claim C2. The boundary inputs: (4 files, 9 lines) is tiny, (5, 9) is small, (9, 49) is
  small, (9, 50) is medium, (9, 249) is medium and (10, 0) is large.
\<close>

theorem C2_classifier_boundaries:
  "sizeLoop sizeCutoffs 4 9 = Some ''tiny''
   \<and> sizeLoop sizeCutoffs 5 9 = Some ''small''
   \<and> sizeLoop sizeCutoffs 9 49 = Some ''small''
   \<and> sizeLoop sizeCutoffs 9 50 = Some ''medium''
   \<and> sizeLoop sizeCutoffs 9 249 = Some ''medium''
   \<and> sizeLoop sizeCutoffs 10 0 = Some ''large''"
  by (simp add: sizeCutoffs_def numeral_eq_enat)

subsection \<open>Requests to the hosted API\<close>

text \<open>
  Each endpoint logs its request. It answers when the oracle lets the request through
  and the pull request exists, and throws otherwise, changing nothing but the log.
\<close>

lemma received_simps [simp]:
  "calls (received q r) = calls r @ [q]"
  "pulls (received q r) = pulls r"
  "fails (received q r) = fails r"
  by (simp_all add: received_def)

lemma get_pull_ok:
  "\<not> rejected r \<Longrightarrow> pulls r (owner, repo, n) = Some p \<Longrightarrow>
   get_pull owner repo n r = (Inr p, received (GET_pull owner repo n) r)"
  by (simp add: get_pull_def Let_def)

lemma get_pull_cases:
  "get_pull owner repo n r = (res, r') \<Longrightarrow> r' = received (GET_pull owner repo n) r"
  by (auto simp add: get_pull_def Let_def split: if_splits option.splits)

lemma add_labels_ok:
  "\<not> rejected r \<Longrightarrow> pulls r (owner, repo, n) = Some p \<Longrightarrow>
   add_labels owner repo n ls r =
     (Inr (fold attach ls (labels p)),
      received (POST_labels owner repo n ls)
        (r\<lparr>pulls := (pulls r)((owner, repo, n) \<mapsto> p\<lparr>labels := fold attach ls (labels p)\<rparr>)\<rparr>))"
  by (simp add: add_labels_def Let_def)

lemma add_labels_rejected:
  "rejected r \<or> pulls r (owner, repo, n) = None \<Longrightarrow>
   add_labels owner repo n ls r =
     (Inl (RequestError (POST_labels owner repo n ls)), received (POST_labels owner repo n ls) r)"
  by (auto simp add: add_labels_def Let_def)

lemma remove_label_ok:
  "\<not> rejected r \<Longrightarrow> pulls r (owner, repo, n) = Some p \<Longrightarrow>
   remove_label owner repo n l r =
     (Inr (removeAll l (labels p)),
      received (DELETE_label owner repo n l)
        (r\<lparr>pulls := (pulls r)((owner, repo, n) \<mapsto> p\<lparr>labels := removeAll l (labels p)\<rparr>)\<rparr>))"
  by (simp add: remove_label_def Let_def)

lemma remove_label_rejected:
  "rejected r \<or> pulls r (owner, repo, n) = None \<Longrightarrow>
   remove_label owner repo n l r =
     (Inl (RequestError (DELETE_label owner repo n l)), received (DELETE_label owner repo n l) r)"
  by (auto simp add: remove_label_def Let_def)

subsection \<open>Fetching the statistics and classifying\<close>

text \<open>The loop returns the label of the first entry of the table that matches.\<close>

lemma sizeLoop_find:
  "sizeLoop entries f l = map_option fst (find (entryMatches f l) entries)"
  by (induction entries f l rule: sizeLoop.induct) (simp_all add: entryMatches_def)

lemma getPullRequestSize_world:
  "getPullRequestSize n owner repo r = (res, r') \<Longrightarrow> r' = received (GET_pull owner repo n) r"
  by (auto simp add: getPullRequestSize_def Let_def split: prod.splits sum.splits
      dest: get_pull_cases)

text \<open>
  Claim C6. When the fetch succeeds, \<open>getPullRequestSize\<close> classifies with the number
  of lines changed computed as additions plus deletions and the number of files changed
  taken from the fetched \<open>changed_files\<close>: it returns the label of the first entry of
  the table, in the order tiny, small, medium, large, whose two bounds both hold, and
  sends nothing but the one GET request.
\<close>

theorem C6_first_matching_entry:
  assumes "\<not> rejected r" and "pulls r (owner, repo, n) = Some p"
  shows "getPullRequestSize n owner repo r =
           (Inr (classify_spec (changed_files p) (additions p + deletions p)),
            received (GET_pull owner repo n) r)
       \<and> map fst sizeCutoffs = [''tiny'', ''small'', ''medium'', ''large'']"
  using assms
  by (simp add: getPullRequestSize_def get_pull_ok classify_spec_def sizeLoop_find add.commute)
     (simp add: sizeCutoffs_def)

lemmas fetch_defs = getPullRequestSize_def get_pull_def rejected_def received_def
  sizeCutoffs_def numeral_eq_enat example_pull_def example_remote_def Let_def

theorem C6_witness:
  "\<not> rejected (example_remote (\<lambda>k. False))
   \<and> pulls (example_remote (\<lambda>k. False)) (''octo'', ''hello'', ''7'') = Some example_pull
   \<and> getPullRequestSize ''7'' ''octo'' ''hello'' (example_remote (\<lambda>k. False)) =
       (Inr (Some ''small''),
        \<lparr>pulls = [(''octo'', ''hello'', ''7'') \<mapsto> example_pull],
         calls = [GET_pull ''octo'' ''hello'' ''7''], fails = (\<lambda>k. False)\<rparr>)
   \<and> classify_spec 3 (30 + 12) = Some ''small''"
proof -
  have h1: "\<not> rejected (example_remote (\<lambda>k. False))"
    by (simp add: rejected_def example_remote_def)
  have h2: "pulls (example_remote (\<lambda>k. False)) (''octo'', ''hello'', ''7'') = Some example_pull"
    by (simp add: example_remote_def)
  have run: "getPullRequestSize ''7'' ''octo'' ''hello'' (example_remote (\<lambda>k. False)) =
       (Inr (Some ''small''),
        \<lparr>pulls = [(''octo'', ''hello'', ''7'') \<mapsto> example_pull],
         calls = [GET_pull ''octo'' ''hello'' ''7''], fails = (\<lambda>k. False)\<rparr>)"
    by (simp add: fetch_defs)
  from C6_first_matching_entry [OF h1 h2] run
  have "classify_spec 3 (30 + 12) = Some ''small''"
    by (simp add: example_pull_def)
  with h1 h2 run show ?thesis by simp
qed

subsection \<open>The label reconciler\<close>

lemma filter_removeAll: "filter P (removeAll l xs) = filter (\<lambda>x. x \<noteq> l \<and> P x) xs"
  by (induction xs) auto

text \<open>
  A loop that ends normally has sent one DELETE per label, in order, and the labels are
  gone from the pull request.
\<close>

lemma removeLoop_ok:
  "removeLoop n owner repo ls r = (Inr u, r') \<Longrightarrow> pulls r (owner, repo, n) = Some p \<Longrightarrow>
     calls r' = calls r @ map (DELETE_label owner repo n) ls
     \<and> fails r' = fails r
     \<and> pulls r' = (pulls r)((owner, repo, n) \<mapsto> p\<lparr>labels := filter (\<lambda>l. l \<notin> set ls) (labels p)\<rparr>)"
proof (induction ls arbitrary: r p)
  case Nil
  then show ?case by (simp add: map_upd_triv)
next
  case (Cons l ls)
  show ?case
  proof (cases "rejected r")
    case True
    with Cons.prems show ?thesis by (simp add: remove_label_rejected)
  next
    case False
    let ?p = "p\<lparr>labels := removeAll l (labels p)\<rparr>"
    let ?r = "received (DELETE_label owner repo n l)
        (r\<lparr>pulls := (pulls r)((owner, repo, n) \<mapsto> ?p)\<rparr>)"
    from False Cons.prems have run: "removeLoop n owner repo ls ?r = (Inr u, r')"
      by (simp add: remove_label_ok)
    have "pulls ?r (owner, repo, n) = Some ?p" by simp
    from Cons.IH [OF run this] show ?thesis
      by (auto simp add: filter_removeAll fun_eq_iff)
  qed
qed

text \<open>
  A loop that throws has stopped at the first rejected DELETE: the labels before it are
  gone, that label and the ones after it are not touched.
\<close>

lemma removeLoop_failed:
  "removeLoop n owner repo ls r = (Inl e, r') \<Longrightarrow> pulls r (owner, repo, n) = Some p \<Longrightarrow>
     \<exists>removed l rest. ls = removed @ l # rest
       \<and> e = RequestError (DELETE_label owner repo n l)
       \<and> calls r' = calls r @ map (DELETE_label owner repo n) (removed @ [l])
       \<and> fails r' = fails r
       \<and> pulls r' = (pulls r)((owner, repo, n) \<mapsto> p\<lparr>labels := filter (\<lambda>x. x \<notin> set removed) (labels p)\<rparr>)"
proof (induction ls arbitrary: r p)
  case Nil
  then show ?case by simp
next
  case (Cons l ls)
  show ?case
  proof (cases "rejected r")
    case True
    with Cons.prems have "e = RequestError (DELETE_label owner repo n l)"
      and "r' = received (DELETE_label owner repo n l) r"
      by (simp_all add: remove_label_rejected)
    with True Cons.prems(2) have "l # ls = [] @ l # ls
       \<and> e = RequestError (DELETE_label owner repo n l)
       \<and> calls r' = calls r @ map (DELETE_label owner repo n) ([] @ [l])
       \<and> fails r' = fails r
       \<and> pulls r' = (pulls r)((owner, repo, n) \<mapsto> p\<lparr>labels := filter (\<lambda>x. x \<notin> set []) (labels p)\<rparr>)"
      by (simp add: map_upd_triv)
    then show ?thesis by blast
  next
    case False
    let ?p = "p\<lparr>labels := removeAll l (labels p)\<rparr>"
    let ?r = "received (DELETE_label owner repo n l)
        (r\<lparr>pulls := (pulls r)((owner, repo, n) \<mapsto> ?p)\<rparr>)"
    from False Cons.prems have run: "removeLoop n owner repo ls ?r = (Inl e, r')"
      by (simp add: remove_label_ok)
    have "pulls ?r (owner, repo, n) = Some ?p" by simp
    from Cons.IH [OF run this] obtain removed l' rest where
      split: "ls = removed @ l' # rest"
      and e: "e = RequestError (DELETE_label owner repo n l')"
      and c: "calls r' = calls ?r @ map (DELETE_label owner repo n) (removed @ [l'])"
      and f: "fails r' = fails ?r"
      and s: "pulls r' = (pulls ?r)((owner, repo, n) \<mapsto> ?p\<lparr>labels := filter (\<lambda>x. x \<notin> set removed) (labels ?p)\<rparr>)"
      by blast
    from split e c f s have "l # ls = (l # removed) @ l' # rest
       \<and> e = RequestError (DELETE_label owner repo n l')
       \<and> calls r' = calls r @ map (DELETE_label owner repo n) ((l # removed) @ [l'])
       \<and> fails r' = fails r
       \<and> pulls r' = (pulls r)((owner, repo, n) \<mapsto> p\<lparr>labels := filter (\<lambda>x. x \<notin> set (l # removed)) (labels p)\<rparr>)"
      by (auto simp add: filter_removeAll fun_eq_iff)
    then show ?thesis by blast
  qed
qed

lemma label_invalid:
  "size_arg \<notin> Some ` set allSizes \<Longrightarrow>
   labelPullRequestWithSize n owner repo size_arg r = (Inl (InvalidSizeLabel size_arg), r)"
  by (cases size_arg) (auto simp add: labelPullRequestWithSize_def)

lemma label_post_failed:
  "sz \<in> set allSizes \<Longrightarrow> rejected r \<or> pulls r (owner, repo, n) = None \<Longrightarrow>
   labelPullRequestWithSize n owner repo (Some sz) r =
     (Inl (RequestError (POST_labels owner repo n [sz])),
      received (POST_labels owner repo n [sz]) r)"
  by (simp add: labelPullRequestWithSize_def add_labels_rejected)

lemma stale_attach:
  "filter (\<lambda>s. s \<noteq> sz \<and> s \<in> set (attach sz ls)) xs = filter (\<lambda>s. s \<noteq> sz \<and> s \<in> set ls) xs"
  by (rule filter_cong) (auto simp add: attach_def)

lemma label_post_ok:
  "sz \<in> set allSizes \<Longrightarrow> \<not> rejected r \<Longrightarrow> pulls r (owner, repo, n) = Some p \<Longrightarrow>
   labelPullRequestWithSize n owner repo (Some sz) r =
     removeLoop n owner repo (filter (\<lambda>s. s \<noteq> sz \<and> s \<in> set (labels p)) allSizes)
       (received (POST_labels owner repo n [sz])
          (r\<lparr>pulls := (pulls r)((owner, repo, n) \<mapsto> p\<lparr>labels := attach sz (labels p)\<rparr>)\<rparr>))"
  by (simp add: labelPullRequestWithSize_def add_labels_ok stale_attach)

lemma label_success:
  assumes valid: "sz \<in> set allSizes"
    and present: "pulls r (owner, repo, n) = Some p"
    and run: "labelPullRequestWithSize n owner repo (Some sz) r = (Inr u, r')"
  shows "calls r' = calls r @ POST_labels owner repo n [sz]
            # map (DELETE_label owner repo n) (filter (\<lambda>s. s \<noteq> sz \<and> s \<in> set (labels p)) allSizes)"
    and "fails r' = fails r"
    and "pulls r' = (pulls r)((owner, repo, n) \<mapsto>
           p\<lparr>labels := filter (\<lambda>l. l \<notin> set (filter (\<lambda>s. s \<noteq> sz \<and> s \<in> set (labels p)) allSizes))
                          (attach sz (labels p))\<rparr>)"
proof -
  let ?stale = "filter (\<lambda>s. s \<noteq> sz \<and> s \<in> set (labels p)) allSizes"
  let ?p0 = "p\<lparr>labels := attach sz (labels p)\<rparr>"
  let ?r0 = "received (POST_labels owner repo n [sz])
          (r\<lparr>pulls := (pulls r)((owner, repo, n) \<mapsto> ?p0)\<rparr>)"
  have ok: "\<not> rejected r"
  proof
    assume "rejected r"
    with valid run show False by (simp add: label_post_failed)
  qed
  with valid present run have loop: "removeLoop n owner repo ?stale ?r0 = (Inr u, r')"
    by (simp add: label_post_ok)
  have "pulls ?r0 (owner, repo, n) = Some ?p0" by simp
  from removeLoop_ok [OF loop this]
  show "calls r' = calls r @ POST_labels owner repo n [sz] # map (DELETE_label owner repo n) ?stale"
    and "fails r' = fails r"
    and "pulls r' = (pulls r)((owner, repo, n) \<mapsto>
           p\<lparr>labels := filter (\<lambda>l. l \<notin> set ?stale) (attach sz (labels p))\<rparr>)"
    by simp_all
qed

lemma distinct_allSizes: "distinct allSizes"
  by (simp add: allSizes_eq)

lemma distinct_stale: "distinct (filter P allSizes)"
  by (simp add: distinct_allSizes)

lemmas run_defs = labelPullRequestWithSize_def add_labels_def remove_label_def rejected_def
  received_def attach_def allSizes_eq example_pull_def example_remote_def Let_def

text \<open>
  Claim C4. For every argument that is not one of tiny, small, medium, large (the value
  \<open>undefined\<close> included), the reconciler throws the invalid-size-label error and sends no
  request: the state of the service, its log of requests included, is what it was.
\<close>

theorem C4_invalid_label_rejected:
  assumes "size_arg \<notin> Some ` set allSizes"
  shows "labelPullRequestWithSize prNumber owner repo size_arg r = (Inl (InvalidSizeLabel size_arg), r)"
  using assms by (rule label_invalid)

theorem C4_witness:
  "Some ''huge'' \<notin> Some ` set allSizes
   \<and> labelPullRequestWithSize ''7'' ''octo'' ''hello'' (Some ''huge'') (example_remote (\<lambda>k. False))
       = (Inl (InvalidSizeLabel (Some ''huge'')), example_remote (\<lambda>k. False))
   \<and> calls (example_remote (\<lambda>k. False)) = []
   \<and> None \<notin> Some ` set allSizes
   \<and> labelPullRequestWithSize ''7'' ''octo'' ''hello'' None (example_remote (\<lambda>k. False))
       = (Inl (InvalidSizeLabel None), example_remote (\<lambda>k. False))"
proof -
  have h1: "Some ''huge'' \<notin> Some ` set allSizes" by (simp add: allSizes_eq)
  have h2: "None \<notin> Some ` set allSizes" by simp
  have c: "calls (example_remote (\<lambda>k. False)) = []" by (simp add: example_remote_def)
  from h1 h2 c C4_invalid_label_rejected [OF h1] C4_invalid_label_rejected [OF h2]
  show ?thesis by simp
qed

text \<open>
  Claim C3. For every current label list and every valid desired size label, a reconcile
  that ends normally has removed exactly the current labels that are size labels other
  than the desired one: the labels left are the desired label and the current labels that
  are not size labels, which are untouched, and the requests sent are the POST of the
  desired label followed by one DELETE for each stale size label. With the current labels
  small, medium and bug and the desired label large, it removes small and medium and
  leaves bug and large.
\<close>

theorem C3_removes_exactly_stale:
  assumes valid: "sz \<in> set allSizes"
    and present: "pulls r (owner, repo, n) = Some p"
    and run: "labelPullRequestWithSize n owner repo (Some sz) r = (Inr u, r')"
  shows "\<exists>p'. pulls r' (owner, repo, n) = Some p'
      \<and> set (labels p) - set (labels p') = set (labels p) \<inter> set allSizes - {sz}
      \<and> set (labels p') = insert sz (set (labels p) - set allSizes)
      \<and> filter (\<lambda>l. l \<notin> set allSizes) (labels p') = filter (\<lambda>l. l \<notin> set allSizes) (labels p)
      \<and> calls r' = calls r @ POST_labels owner repo n [sz]
            # map (DELETE_label owner repo n) (filter (\<lambda>s. s \<noteq> sz \<and> s \<in> set (labels p)) allSizes)"
proof -
  let ?stale = "filter (\<lambda>s. s \<noteq> sz \<and> s \<in> set (labels p)) allSizes"
  let ?p0 = "p\<lparr>labels := attach sz (labels p)\<rparr>"
  let ?r0 = "received (POST_labels owner repo n [sz])
          (r\<lparr>pulls := (pulls r)((owner, repo, n) \<mapsto> ?p0)\<rparr>)"
  let ?p' = "?p0\<lparr>labels := filter (\<lambda>l. l \<notin> set ?stale) (labels ?p0)\<rparr>"
  have ok: "\<not> rejected r"
  proof
    assume "rejected r"
    with valid run show False by (simp add: label_post_failed)
  qed
  with valid present run have loop: "removeLoop n owner repo ?stale ?r0 = (Inr u, r')"
    by (simp add: label_post_ok)
  have "pulls ?r0 (owner, repo, n) = Some ?p0" by simp
  from removeLoop_ok [OF loop this]
  have c: "calls r' = calls ?r0 @ map (DELETE_label owner repo n) ?stale"
    and s: "pulls r' = (pulls ?r0)((owner, repo, n) \<mapsto> ?p')"
    by simp_all
  have l: "labels ?p' = filter (\<lambda>l. l \<notin> set ?stale) (attach sz (labels p))" by simp
  have 1: "pulls r' (owner, repo, n) = Some ?p'" using s by simp
  have 2: "set (labels p) - set (labels ?p') = set (labels p) \<inter> set allSizes - {sz}"
    unfolding l by (auto simp add: attach_def)
  have 3: "set (labels ?p') = insert sz (set (labels p) - set allSizes)"
    unfolding l using valid by (auto simp add: attach_def)
  have 4: "filter (\<lambda>l. l \<notin> set allSizes) (labels ?p') = filter (\<lambda>l. l \<notin> set allSizes) (labels p)"
    unfolding l using valid by (auto simp add: attach_def intro: filter_cong)
  have 5: "calls r' = calls r @ POST_labels owner repo n [sz] # map (DELETE_label owner repo n) ?stale"
    using c by simp
  from 1 2 3 4 5 show ?thesis by blast
qed

theorem C3_witness:
  "''large'' \<in> set allSizes
   \<and> pulls (example_remote (\<lambda>k. False)) (''octo'', ''hello'', ''7'') = Some example_pull
   \<and> labelPullRequestWithSize ''7'' ''octo'' ''hello'' (Some ''large'') (example_remote (\<lambda>k. False))
       = (Inr (),
          \<lparr>pulls = [(''octo'', ''hello'', ''7'') \<mapsto> example_pull\<lparr>labels := [''bug'', ''large'']\<rparr>],
           calls = [POST_labels ''octo'' ''hello'' ''7'' [''large''],
                    DELETE_label ''octo'' ''hello'' ''7'' ''small'',
                    DELETE_label ''octo'' ''hello'' ''7'' ''medium''],
           fails = (\<lambda>k. False)\<rparr>)
   \<and> set (labels example_pull) - set [''bug'', ''large''] = {''small'', ''medium''}"
proof -
  let ?r' = "\<lparr>pulls = [(''octo'', ''hello'', ''7'') \<mapsto> example_pull\<lparr>labels := [''bug'', ''large'']\<rparr>],
           calls = [POST_labels ''octo'' ''hello'' ''7'' [''large''],
                    DELETE_label ''octo'' ''hello'' ''7'' ''small'',
                    DELETE_label ''octo'' ''hello'' ''7'' ''medium''],
           fails = (\<lambda>k. False)\<rparr>"
  have h1: "''large'' \<in> set allSizes" by (simp add: allSizes_eq)
  have h2: "pulls (example_remote (\<lambda>k. False)) (''octo'', ''hello'', ''7'') = Some example_pull"
    by (simp add: example_remote_def)
  have h3: "labelPullRequestWithSize ''7'' ''octo'' ''hello'' (Some ''large'')
              (example_remote (\<lambda>k. False)) = (Inr (), ?r')"
    by (simp add: run_defs)
  from C3_removes_exactly_stale [OF h1 h2 h3] obtain p' where
    p': "pulls ?r' (''octo'', ''hello'', ''7'') = Some p'"
    and removed: "set (labels example_pull) - set (labels p')
                    = set (labels example_pull) \<inter> set allSizes - {''large''}"
    by blast
  from p' have l: "labels p' = [''bug'', ''large'']" by auto
  from removed have a: "set (labels example_pull) - set [''bug'', ''large''] = {''small'', ''medium''}"
    unfolding l by (simp add: example_pull_def allSizes_eq)
  from h1 h2 h3 a show ?thesis by blast
qed

lemma count_list_filter:
  "P x \<Longrightarrow> count_list (filter P xs) x = count_list xs x"
  by (induction xs) auto

lemma count_list_attach:
  "count_list (attach x xs) x = (if x \<in> set xs then count_list xs x else 1)"
  by (simp add: attach_def)

lemma distinct_attach: "distinct xs \<Longrightarrow> distinct (attach x xs)"
  by (simp add: attach_def)

text \<open>
  Claim C5. Reconciling is idempotent: for every current label list and valid desired
  label, after a reconcile that ends normally a second reconcile of the same label leaves
  the labels as they are, whatever the oracle does to it; it sends the POST and no
  DELETE, and ends normally when the POST is let through. The desired label is not
  duplicated: it is there as often as before when it was present, and once otherwise.
\<close>

theorem C5_reconcile_idempotent:
  assumes valid: "sz \<in> set allSizes"
    and present: "pulls r (owner, repo, n) = Some p"
    and first: "labelPullRequestWithSize n owner repo (Some sz) r = (Inr u, r1)"
    and second: "labelPullRequestWithSize n owner repo (Some sz) r1 = (res, r2)"
  shows "pulls r2 = pulls r1
     \<and> calls r2 = calls r1 @ [POST_labels owner repo n [sz]]
     \<and> (\<not> rejected r1 \<longrightarrow> res = Inr ())
     \<and> (\<exists>p1. pulls r1 (owner, repo, n) = Some p1
           \<and> count_list (labels p1) sz = (if sz \<in> set (labels p) then count_list (labels p) sz else 1)
           \<and> (distinct (labels p) \<longrightarrow> distinct (labels p1)))"
proof -
  let ?stale = "filter (\<lambda>s. s \<noteq> sz \<and> s \<in> set (labels p)) allSizes"
  let ?ls1 = "filter (\<lambda>l. l \<notin> set ?stale) (attach sz (labels p))"
  let ?p1 = "p\<lparr>labels := ?ls1\<rparr>"
  let ?q = "POST_labels owner repo n [sz]"
  from label_success(3) [OF valid present first]
  have p1: "pulls r1 (owner, repo, n) = Some ?p1" by simp
  have in1: "sz \<in> set ?ls1" by (simp add: attach_def)
  have none: "filter (\<lambda>s. s \<noteq> sz \<and> s \<in> set (labels ?p1)) allSizes = []"
    by (auto simp add: filter_empty_conv attach_def)
  have same: "attach sz (labels ?p1) = labels ?p1"
    using in1 by (simp add: attach_def)
  have again: "pulls r2 = pulls r1 \<and> calls r2 = calls r1 @ [?q] \<and> (\<not> rejected r1 \<longrightarrow> res = Inr ())"
  proof (cases "rejected r1")
    case True
    with valid second show ?thesis by (auto simp add: label_post_failed)
  next
    case False
    from label_post_ok [OF valid False p1] second
    have "(res, r2) = removeLoop n owner repo []
            (received ?q (r1\<lparr>pulls := (pulls r1)((owner, repo, n) \<mapsto> ?p1)\<rparr>))"
      unfolding none same by simp
    with p1 show ?thesis by (simp add: map_upd_triv)
  qed
  have cnt: "count_list ?ls1 sz = (if sz \<in> set (labels p) then count_list (labels p) sz else 1)"
    by (simp add: count_list_filter count_list_attach)
  have dist: "distinct (labels p) \<longrightarrow> distinct ?ls1"
    by (simp add: distinct_attach)
  from p1 cnt dist have "\<exists>p1. pulls r1 (owner, repo, n) = Some p1
           \<and> count_list (labels p1) sz = (if sz \<in> set (labels p) then count_list (labels p) sz else 1)
           \<and> (distinct (labels p) \<longrightarrow> distinct (labels p1))"
    by simp
  with again show ?thesis by blast
qed

theorem C5_witness:
  "''large'' \<in> set allSizes
   \<and> pulls (example_remote (\<lambda>k. False)) (''octo'', ''hello'', ''7'') = Some example_pull
   \<and> labelPullRequestWithSize ''7'' ''octo'' ''hello'' (Some ''large'') (example_remote (\<lambda>k. False))
       = (Inr (),
          \<lparr>pulls = [(''octo'', ''hello'', ''7'') \<mapsto> example_pull\<lparr>labels := [''bug'', ''large'']\<rparr>],
           calls = [POST_labels ''octo'' ''hello'' ''7'' [''large''],
                    DELETE_label ''octo'' ''hello'' ''7'' ''small'',
                    DELETE_label ''octo'' ''hello'' ''7'' ''medium''],
           fails = (\<lambda>k. False)\<rparr>)
   \<and> labelPullRequestWithSize ''7'' ''octo'' ''hello'' (Some ''large'')
         \<lparr>pulls = [(''octo'', ''hello'', ''7'') \<mapsto> example_pull\<lparr>labels := [''bug'', ''large'']\<rparr>],
          calls = [POST_labels ''octo'' ''hello'' ''7'' [''large''],
                   DELETE_label ''octo'' ''hello'' ''7'' ''small'',
                   DELETE_label ''octo'' ''hello'' ''7'' ''medium''],
          fails = (\<lambda>k. False)\<rparr>
       = (Inr (),
          \<lparr>pulls = [(''octo'', ''hello'', ''7'') \<mapsto> example_pull\<lparr>labels := [''bug'', ''large'']\<rparr>],
           calls = [POST_labels ''octo'' ''hello'' ''7'' [''large''],
                    DELETE_label ''octo'' ''hello'' ''7'' ''small'',
                    DELETE_label ''octo'' ''hello'' ''7'' ''medium'',
                    POST_labels ''octo'' ''hello'' ''7'' [''large'']],
           fails = (\<lambda>k. False)\<rparr>)
   \<and> count_list [''bug'', ''large''] ''large'' = 1"
proof -
  let ?r1 = "\<lparr>pulls = [(''octo'', ''hello'', ''7'') \<mapsto> example_pull\<lparr>labels := [''bug'', ''large'']\<rparr>],
           calls = [POST_labels ''octo'' ''hello'' ''7'' [''large''],
                    DELETE_label ''octo'' ''hello'' ''7'' ''small'',
                    DELETE_label ''octo'' ''hello'' ''7'' ''medium''],
           fails = (\<lambda>k. False)\<rparr>"
  let ?r2 = "\<lparr>pulls = [(''octo'', ''hello'', ''7'') \<mapsto> example_pull\<lparr>labels := [''bug'', ''large'']\<rparr>],
           calls = [POST_labels ''octo'' ''hello'' ''7'' [''large''],
                    DELETE_label ''octo'' ''hello'' ''7'' ''small'',
                    DELETE_label ''octo'' ''hello'' ''7'' ''medium'',
                    POST_labels ''octo'' ''hello'' ''7'' [''large'']],
           fails = (\<lambda>k. False)\<rparr>"
  have h1: "''large'' \<in> set allSizes" by (simp add: allSizes_eq)
  have h2: "pulls (example_remote (\<lambda>k. False)) (''octo'', ''hello'', ''7'') = Some example_pull"
    by (simp add: example_remote_def)
  have h3: "labelPullRequestWithSize ''7'' ''octo'' ''hello'' (Some ''large'')
              (example_remote (\<lambda>k. False)) = (Inr (), ?r1)"
    by (simp add: run_defs)
  have h4: "labelPullRequestWithSize ''7'' ''octo'' ''hello'' (Some ''large'') ?r1 = (Inr (), ?r2)"
    by (simp add: run_defs)
  from C5_reconcile_idempotent [OF h1 h2 h3 h4] obtain p1 where
    p1: "pulls ?r1 (''octo'', ''hello'', ''7'') = Some p1"
    and cnt: "count_list (labels p1) ''large'' =
               (if ''large'' \<in> set (labels example_pull)
                then count_list (labels example_pull) ''large'' else 1)"
    by blast
  from p1 have l: "labels p1 = [''bug'', ''large'']" by auto
  from cnt have c: "count_list [''bug'', ''large''] ''large'' = 1"
    unfolding l by (simp add: example_pull_def)
  from h1 h2 h3 h4 c show ?thesis by blast
qed

text \<open>
  Claim C7. In every run of the reconciler with a valid label the POST that adds the
  label is the first request, and only DELETE requests of stale labels follow, in the
  order of the table. When the POST is rejected nothing else is sent and no label
  changes. When a DELETE is rejected it is the last request: the labels removed before it
  stay removed, the added label stays, the label whose removal failed and the ones after
  it are still on the pull request, and no request undoes anything.
\<close>

theorem C7_add_first_no_rollback:
  assumes valid: "sz \<in> set allSizes"
    and present: "pulls r (owner, repo, n) = Some p"
    and run: "labelPullRequestWithSize n owner repo (Some sz) r = (res, r')"
  shows "(\<exists>k. calls r' = calls r @ POST_labels owner repo n [sz]
              # map (DELETE_label owner repo n)
                  (take k (filter (\<lambda>s. s \<noteq> sz \<and> s \<in> set (labels p)) allSizes)))
     \<and> (res = Inl (RequestError (POST_labels owner repo n [sz])) \<longrightarrow>
           calls r' = calls r @ [POST_labels owner repo n [sz]] \<and> pulls r' = pulls r)
     \<and> (\<forall>l. res = Inl (RequestError (DELETE_label owner repo n l)) \<longrightarrow>
           (\<exists>removed rest p'.
               filter (\<lambda>s. s \<noteq> sz \<and> s \<in> set (labels p)) allSizes = removed @ l # rest
             \<and> calls r' = calls r @ POST_labels owner repo n [sz]
                             # map (DELETE_label owner repo n) (removed @ [l])
             \<and> pulls r' (owner, repo, n) = Some p'
             \<and> labels p' = filter (\<lambda>x. x \<notin> set removed) (attach sz (labels p))
             \<and> sz \<in> set (labels p')
             \<and> set removed \<inter> set (labels p') = {}
             \<and> set (l # rest) \<subseteq> set (labels p')))"
proof (cases "rejected r")
  case True
  with valid run have "res = Inl (RequestError (POST_labels owner repo n [sz]))"
    and "r' = received (POST_labels owner repo n [sz]) r"
    by (simp_all add: label_post_failed)
  then have "calls r' = calls r @ POST_labels owner repo n [sz]
              # map (DELETE_label owner repo n)
                  (take 0 (filter (\<lambda>s. s \<noteq> sz \<and> s \<in> set (labels p)) allSizes))"
    and "calls r' = calls r @ [POST_labels owner repo n [sz]] \<and> pulls r' = pulls r"
    and "\<forall>l. res \<noteq> Inl (RequestError (DELETE_label owner repo n l))"
    by simp_all
  then show ?thesis by blast
next
  case False
  let ?stale = "filter (\<lambda>s. s \<noteq> sz \<and> s \<in> set (labels p)) allSizes"
  let ?q = "POST_labels owner repo n [sz]"
  let ?p0 = "p\<lparr>labels := attach sz (labels p)\<rparr>"
  let ?r0 = "received ?q (r\<lparr>pulls := (pulls r)((owner, repo, n) \<mapsto> ?p0)\<rparr>)"
  from valid False present run have loop: "removeLoop n owner repo ?stale ?r0 = (res, r')"
    by (simp add: label_post_ok)
  have p0: "pulls ?r0 (owner, repo, n) = Some ?p0" by simp
  show ?thesis
  proof (cases res)
    case (Inr u)
    with loop have "removeLoop n owner repo ?stale ?r0 = (Inr u, r')" by simp
    from removeLoop_ok [OF this p0]
    have "calls r' = calls r @ ?q # map (DELETE_label owner repo n) (take (length ?stale) ?stale)"
      by simp
    with Inr show ?thesis by blast
  next
    case (Inl e)
    with loop have "removeLoop n owner repo ?stale ?r0 = (Inl e, r')" by simp
    from removeLoop_failed [OF this p0] obtain removed l rest where
      split: "?stale = removed @ l # rest"
      and e: "e = RequestError (DELETE_label owner repo n l)"
      and c: "calls r' = calls ?r0 @ map (DELETE_label owner repo n) (removed @ [l])"
      and s: "pulls r' = (pulls ?r0)((owner, repo, n) \<mapsto>
                ?p0\<lparr>labels := filter (\<lambda>x. x \<notin> set removed) (labels ?p0)\<rparr>)"
      by blast
    let ?p' = "?p0\<lparr>labels := filter (\<lambda>x. x \<notin> set removed) (labels ?p0)\<rparr>"
    have dist: "distinct (removed @ l # rest)"
      using distinct_stale [of "\<lambda>s. s \<noteq> sz \<and> s \<in> set (labels p)"] unfolding split .
    have mem: "\<And>x. x \<in> set (removed @ l # rest) \<Longrightarrow> x \<noteq> sz \<and> x \<in> set (labels p)"
    proof -
      fix x assume "x \<in> set (removed @ l # rest)"
      then have "x \<in> set ?stale" unfolding split .
      then show "x \<noteq> sz \<and> x \<in> set (labels p)" by simp
    qed
    have first: "calls r' = calls r @ ?q # map (DELETE_label owner repo n) (take (Suc (length removed)) ?stale)"
      using c unfolding split by simp
    have c': "calls r' = calls r @ ?q # map (DELETE_label owner repo n) (removed @ [l])"
      using c by simp
    have s': "pulls r' (owner, repo, n) = Some ?p'" using s by simp
    have l': "labels ?p' = filter (\<lambda>x. x \<notin> set removed) (attach sz (labels p))" by simp
    have a: "sz \<in> set (labels ?p')" using mem by (auto simp add: attach_def)
    have b: "set removed \<inter> set (labels ?p') = {}" by auto
    have d: "set (l # rest) \<subseteq> set (labels ?p')"
      using mem dist by (auto simp add: attach_def)
    have third: "\<forall>l'. res = Inl (RequestError (DELETE_label owner repo n l')) \<longrightarrow>
           (\<exists>removed rest p'.
               ?stale = removed @ l' # rest
             \<and> calls r' = calls r @ ?q # map (DELETE_label owner repo n) (removed @ [l'])
             \<and> pulls r' (owner, repo, n) = Some p'
             \<and> labels p' = filter (\<lambda>x. x \<notin> set removed) (attach sz (labels p))
             \<and> sz \<in> set (labels p')
             \<and> set removed \<inter> set (labels p') = {}
             \<and> set (l' # rest) \<subseteq> set (labels p'))"
    proof (intro allI impI)
      fix l' assume "res = Inl (RequestError (DELETE_label owner repo n l'))"
      with Inl e have "l' = l" by simp
      with split c' s' l' a b d show "\<exists>removed rest p'.
               ?stale = removed @ l' # rest
             \<and> calls r' = calls r @ ?q # map (DELETE_label owner repo n) (removed @ [l'])
             \<and> pulls r' (owner, repo, n) = Some p'
             \<and> labels p' = filter (\<lambda>x. x \<notin> set removed) (attach sz (labels p))
             \<and> sz \<in> set (labels p')
             \<and> set removed \<inter> set (labels p') = {}
             \<and> set (l' # rest) \<subseteq> set (labels p')"
        by blast
    qed
    have second: "res \<noteq> Inl (RequestError ?q)" using Inl e by simp
    from first second third show ?thesis by blast
  qed
qed

theorem C7_witness:
  "''large'' \<in> set allSizes
   \<and> pulls (example_remote (\<lambda>k. k = 2)) (''octo'', ''hello'', ''7'') = Some example_pull
   \<and> labelPullRequestWithSize ''7'' ''octo'' ''hello'' (Some ''large'') (example_remote (\<lambda>k. k = 2))
       = (Inl (RequestError (DELETE_label ''octo'' ''hello'' ''7'' ''medium'')),
          \<lparr>pulls = [(''octo'', ''hello'', ''7'') \<mapsto>
                      example_pull\<lparr>labels := [''medium'', ''bug'', ''large'']\<rparr>],
           calls = [POST_labels ''octo'' ''hello'' ''7'' [''large''],
                    DELETE_label ''octo'' ''hello'' ''7'' ''small'',
                    DELETE_label ''octo'' ''hello'' ''7'' ''medium''],
           fails = (\<lambda>k. k = 2)\<rparr>)
   \<and> (\<exists>removed rest.
         filter (\<lambda>s. s \<noteq> ''large'' \<and> s \<in> set (labels example_pull)) allSizes
           = removed @ ''medium'' # rest
       \<and> ''large'' \<in> set [''medium'', ''bug'', ''large'']
       \<and> set removed \<inter> set [''medium'', ''bug'', ''large''] = {}
       \<and> set (''medium'' # rest) \<subseteq> set [''medium'', ''bug'', ''large''])"
proof -
  let ?r' = "\<lparr>pulls = [(''octo'', ''hello'', ''7'') \<mapsto>
                      example_pull\<lparr>labels := [''medium'', ''bug'', ''large'']\<rparr>],
           calls = [POST_labels ''octo'' ''hello'' ''7'' [''large''],
                    DELETE_label ''octo'' ''hello'' ''7'' ''small'',
                    DELETE_label ''octo'' ''hello'' ''7'' ''medium''],
           fails = (\<lambda>k. k = 2)\<rparr>"
  have h1: "''large'' \<in> set allSizes" by (simp add: allSizes_eq)
  have h2: "pulls (example_remote (\<lambda>k. k = 2)) (''octo'', ''hello'', ''7'') = Some example_pull"
    by (simp add: example_remote_def)
  have h3: "labelPullRequestWithSize ''7'' ''octo'' ''hello'' (Some ''large'')
              (example_remote (\<lambda>k. k = 2))
            = (Inl (RequestError (DELETE_label ''octo'' ''hello'' ''7'' ''medium'')), ?r')"
    by (simp add: run_defs)
  from C7_add_first_no_rollback [OF h1 h2 h3]
  have "\<forall>l. Inl (RequestError (DELETE_label ''octo'' ''hello'' ''7'' ''medium'')) =
              (Inl (RequestError (DELETE_label ''octo'' ''hello'' ''7'' l)) :: error + unit) \<longrightarrow>
           (\<exists>removed rest p'.
               filter (\<lambda>s. s \<noteq> ''large'' \<and> s \<in> set (labels example_pull)) allSizes
                 = removed @ l # rest
             \<and> calls ?r' = calls (example_remote (\<lambda>k. k = 2))
                             @ POST_labels ''octo'' ''hello'' ''7'' [''large'']
                             # map (DELETE_label ''octo'' ''hello'' ''7'') (removed @ [l])
             \<and> pulls ?r' (''octo'', ''hello'', ''7'') = Some p'
             \<and> labels p' = filter (\<lambda>x. x \<notin> set removed) (attach ''large'' (labels example_pull))
             \<and> ''large'' \<in> set (labels p')
             \<and> set removed \<inter> set (labels p') = {}
             \<and> set (l # rest) \<subseteq> set (labels p'))"
    by (rule conjunct2 [THEN conjunct2])
  then have "Inl (RequestError (DELETE_label ''octo'' ''hello'' ''7'' ''medium'')) =
              (Inl (RequestError (DELETE_label ''octo'' ''hello'' ''7'' ''medium'')) :: error + unit) \<longrightarrow>
           (\<exists>removed rest p'.
               filter (\<lambda>s. s \<noteq> ''large'' \<and> s \<in> set (labels example_pull)) allSizes
                 = removed @ ''medium'' # rest
             \<and> calls ?r' = calls (example_remote (\<lambda>k. k = 2))
                             @ POST_labels ''octo'' ''hello'' ''7'' [''large'']
                             # map (DELETE_label ''octo'' ''hello'' ''7'') (removed @ [''medium''])
             \<and> pulls ?r' (''octo'', ''hello'', ''7'') = Some p'
             \<and> labels p' = filter (\<lambda>x. x \<notin> set removed) (attach ''large'' (labels example_pull))
             \<and> ''large'' \<in> set (labels p')
             \<and> set removed \<inter> set (labels p') = {}
             \<and> set (''medium'' # rest) \<subseteq> set (labels p'))"
    by (rule spec)
  then have "\<exists>removed rest p'.
               filter (\<lambda>s. s \<noteq> ''large'' \<and> s \<in> set (labels example_pull)) allSizes
                 = removed @ ''medium'' # rest
             \<and> calls ?r' = calls (example_remote (\<lambda>k. k = 2))
                             @ POST_labels ''octo'' ''hello'' ''7'' [''large'']
                             # map (DELETE_label ''octo'' ''hello'' ''7'') (removed @ [''medium''])
             \<and> pulls ?r' (''octo'', ''hello'', ''7'') = Some p'
             \<and> labels p' = filter (\<lambda>x. x \<notin> set removed) (attach ''large'' (labels example_pull))
             \<and> ''large'' \<in> set (labels p')
             \<and> set removed \<inter> set (labels p') = {}
             \<and> set (''medium'' # rest) \<subseteq> set (labels p')"
    by (rule mp) (rule refl)
  then obtain removed rest p' where
    split: "filter (\<lambda>s. s \<noteq> ''large'' \<and> s \<in> set (labels example_pull)) allSizes
                 = removed @ ''medium'' # rest"
    and "calls ?r' = calls (example_remote (\<lambda>k. k = 2))
                             @ POST_labels ''octo'' ''hello'' ''7'' [''large'']
                             # map (DELETE_label ''octo'' ''hello'' ''7'') (removed @ [''medium''])"
    and p': "pulls ?r' (''octo'', ''hello'', ''7'') = Some p'"
    and "labels p' = filter (\<lambda>x. x \<notin> set removed) (attach ''large'' (labels example_pull))"
    and a: "''large'' \<in> set (labels p')"
    and b: "set removed \<inter> set (labels p') = {}"
    and c: "set (''medium'' # rest) \<subseteq> set (labels p')"
    by (elim exE conjE)
  from p' have l: "labels p' = [''medium'', ''bug'', ''large'']" by auto
  from split a b c have "\<exists>removed rest.
         filter (\<lambda>s. s \<noteq> ''large'' \<and> s \<in> set (labels example_pull)) allSizes
           = removed @ ''medium'' # rest
       \<and> ''large'' \<in> set [''medium'', ''bug'', ''large'']
       \<and> set removed \<inter> set [''medium'', ''bug'', ''large''] = {}
       \<and> set (''medium'' # rest) \<subseteq> set [''medium'', ''bug'', ''large'']"
    unfolding l by (intro exI conjI)
  with h1 h2 h3 show ?thesis by (intro conjI)
qed

subsection \<open>The entry point\<close>

lemma main_missing:
  "falsy (env ''TOKEN'') \<or> falsy (env ''REPO_OWNER'') \<or> falsy (env ''REPO_NAME'')
     \<or> falsy (env ''PR_NUMBER'') \<Longrightarrow>
   main env r = \<lparr>exitCode = 1, stderr = [Line ''Missing required environment variables.''],
                 world = r\<rparr>"
  by (simp add: main_def)

lemma main_configured:
  assumes "env ''TOKEN'' = Some token" and "env ''REPO_OWNER'' = Some owner"
    and "env ''REPO_NAME'' = Some repo" and "env ''PR_NUMBER'' = Some n"
    and "token \<noteq> []" and "owner \<noteq> []" and "repo \<noteq> []" and "n \<noteq> []"
  shows "main env r =
     (case getPullRequestSize n owner repo r of
           (Inl e, r1) \<Rightarrow>
             \<lparr>exitCode = 1,
              stderr = [LineWith ''Error processing the pull request:'' e],
              world = r1\<rparr>
         | (Inr prSize, r1) \<Rightarrow>
             (case labelPullRequestWithSize n owner repo prSize r1 of
                (Inl e, r2) \<Rightarrow>
                  \<lparr>exitCode = 1,
                   stderr = [LineWith ''Error processing the pull request:'' e],
                   world = r2\<rparr>
              | (Inr _, r2) \<Rightarrow> \<lparr>exitCode = 0, stderr = [], world = r2\<rparr>))"
  using assms by (simp add: main_def falsy_def split: prod.splits sum.splits)

text \<open>
  Claim C8. If any of TOKEN, REPO_OWNER, REPO_NAME, PR_NUMBER is absent from the
  environment, the process exits with status 1, writes the diagnostic message and sends no
  request: the state of the service, its log included, is what it was.
\<close>

theorem C8_missing_configuration:
  assumes "env ''TOKEN'' = None \<or> env ''REPO_OWNER'' = None \<or> env ''REPO_NAME'' = None
             \<or> env ''PR_NUMBER'' = None"
  shows "main env r = \<lparr>exitCode = 1, stderr = [Line ''Missing required environment variables.''],
                 world = r\<rparr>"
  using assms by (intro main_missing) (auto simp add: falsy_def)

theorem C8_witness:
  "((example_env(''REPO_NAME'' := None)) ''TOKEN'' = None
      \<or> (example_env(''REPO_NAME'' := None)) ''REPO_OWNER'' = None
      \<or> (example_env(''REPO_NAME'' := None)) ''REPO_NAME'' = None
      \<or> (example_env(''REPO_NAME'' := None)) ''PR_NUMBER'' = None)
   \<and> main (example_env(''REPO_NAME'' := None)) (example_remote (\<lambda>k. False)) =
        \<lparr>exitCode = 1, stderr = [Line ''Missing required environment variables.''],
         world = example_remote (\<lambda>k. False)\<rparr>
   \<and> calls (example_remote (\<lambda>k. False)) = []"
proof -
  have h: "(example_env(''REPO_NAME'' := None)) ''TOKEN'' = None
      \<or> (example_env(''REPO_NAME'' := None)) ''REPO_OWNER'' = None
      \<or> (example_env(''REPO_NAME'' := None)) ''REPO_NAME'' = None
      \<or> (example_env(''REPO_NAME'' := None)) ''PR_NUMBER'' = None"
    by simp
  have c: "calls (example_remote (\<lambda>k. False)) = []" by (simp add: example_remote_def)
  from h C8_missing_configuration [OF h, of "example_remote (\<lambda>k. False)"] c
  show ?thesis by (intro conjI)
qed

text \<open>
  Claim C10. A variable set to the empty string counts as unset: if any of TOKEN,
  REPO_OWNER, REPO_NAME, PR_NUMBER is the empty string, the process exits with status 1,
  with the same message, and sends no request.
\<close>

theorem C10_empty_configuration:
  assumes "env ''TOKEN'' = Some [] \<or> env ''REPO_OWNER'' = Some [] \<or> env ''REPO_NAME'' = Some []
             \<or> env ''PR_NUMBER'' = Some []"
  shows "main env r = \<lparr>exitCode = 1, stderr = [Line ''Missing required environment variables.''],
                 world = r\<rparr>"
  using assms by (intro main_missing) (auto simp add: falsy_def)

theorem C10_witness:
  "((example_env(''TOKEN'' \<mapsto> [])) ''TOKEN'' = Some []
      \<or> (example_env(''TOKEN'' \<mapsto> [])) ''REPO_OWNER'' = Some []
      \<or> (example_env(''TOKEN'' \<mapsto> [])) ''REPO_NAME'' = Some []
      \<or> (example_env(''TOKEN'' \<mapsto> [])) ''PR_NUMBER'' = Some [])
   \<and> main (example_env(''TOKEN'' \<mapsto> [])) (example_remote (\<lambda>k. False)) =
        \<lparr>exitCode = 1, stderr = [Line ''Missing required environment variables.''],
         world = example_remote (\<lambda>k. False)\<rparr>
   \<and> calls (example_remote (\<lambda>k. False)) = []"
proof -
  have h: "(example_env(''TOKEN'' \<mapsto> [])) ''TOKEN'' = Some []
      \<or> (example_env(''TOKEN'' \<mapsto> [])) ''REPO_OWNER'' = Some []
      \<or> (example_env(''TOKEN'' \<mapsto> [])) ''REPO_NAME'' = Some []
      \<or> (example_env(''TOKEN'' \<mapsto> [])) ''PR_NUMBER'' = Some []"
    by simp
  have c: "calls (example_remote (\<lambda>k. False)) = []" by (simp add: example_remote_def)
  from h C10_empty_configuration [OF h, of "example_remote (\<lambda>k. False)"] c
  show ?thesis by (intro conjI)
qed

text \<open>
  Claim C9. With the four variables set: if the fetch of the statistics throws, the run
  exits with status 1 after logging the error, having sent the GET request and nothing
  else, so no label has changed; if the reconciler throws, the run logs the error and
  exits with status 1; if both end normally the run exits with status 0 and logs nothing.
\<close>

theorem C9_error_boundary:
  assumes "env ''TOKEN'' = Some token" and "env ''REPO_OWNER'' = Some owner"
    and "env ''REPO_NAME'' = Some repo" and "env ''PR_NUMBER'' = Some n"
    and "token \<noteq> []" and "owner \<noteq> []" and "repo \<noteq> []" and "n \<noteq> []"
  shows "(\<forall>e r1. getPullRequestSize n owner repo r = (Inl e, r1) \<longrightarrow>
            main env r = \<lparr>exitCode = 1,
                           stderr = [LineWith ''Error processing the pull request:'' e],
                           world = r1\<rparr>
            \<and> calls r1 = calls r @ [GET_pull owner repo n] \<and> pulls r1 = pulls r)
       \<and> (\<forall>prSize r1 e r2.
            getPullRequestSize n owner repo r = (Inr prSize, r1)
            \<and> labelPullRequestWithSize n owner repo prSize r1 = (Inl e, r2) \<longrightarrow>
            main env r = \<lparr>exitCode = 1,
                           stderr = [LineWith ''Error processing the pull request:'' e],
                           world = r2\<rparr>)
       \<and> (\<forall>prSize r1 u r2.
            getPullRequestSize n owner repo r = (Inr prSize, r1)
            \<and> labelPullRequestWithSize n owner repo prSize r1 = (Inr u, r2) \<longrightarrow>
            main env r = \<lparr>exitCode = 0, stderr = [], world = r2\<rparr>)"
proof (intro conjI allI impI)
  fix e r1 assume f: "getPullRequestSize n owner repo r = (Inl e, r1)"
  with assms show "main env r = \<lparr>exitCode = 1,
                           stderr = [LineWith ''Error processing the pull request:'' e],
                           world = r1\<rparr>"
    by (simp add: main_configured)
  from getPullRequestSize_world [OF f]
  show "calls r1 = calls r @ [GET_pull owner repo n]" and "pulls r1 = pulls r"
    by simp_all
next
  fix prSize r1 e r2
  assume "getPullRequestSize n owner repo r = (Inr prSize, r1)
            \<and> labelPullRequestWithSize n owner repo prSize r1 = (Inl e, r2)"
  with assms show "main env r = \<lparr>exitCode = 1,
                           stderr = [LineWith ''Error processing the pull request:'' e],
                           world = r2\<rparr>"
    by (simp add: main_configured)
next
  fix prSize r1 u r2
  assume "getPullRequestSize n owner repo r = (Inr prSize, r1)
            \<and> labelPullRequestWithSize n owner repo prSize r1 = (Inr u, r2)"
  with assms show "main env r = \<lparr>exitCode = 0, stderr = [], world = r2\<rparr>"
    by (simp add: main_configured)
qed

theorem C9_witness:
  "example_env ''TOKEN'' = Some ''secret'' \<and> example_env ''REPO_OWNER'' = Some ''octo''
   \<and> example_env ''REPO_NAME'' = Some ''hello'' \<and> example_env ''PR_NUMBER'' = Some ''7''
   \<and> ''secret'' \<noteq> [] \<and> ''octo'' \<noteq> [] \<and> ''hello'' \<noteq> [] \<and> ''7'' \<noteq> []
   \<and> getPullRequestSize ''7'' ''octo'' ''hello'' (example_remote (\<lambda>k. k = 0)) =
       (Inl (RequestError (GET_pull ''octo'' ''hello'' ''7'')),
        \<lparr>pulls = [(''octo'', ''hello'', ''7'') \<mapsto> example_pull],
         calls = [GET_pull ''octo'' ''hello'' ''7''], fails = (\<lambda>k. k = 0)\<rparr>)
   \<and> main example_env (example_remote (\<lambda>k. k = 0)) =
       \<lparr>exitCode = 1,
        stderr = [LineWith ''Error processing the pull request:''
                    (RequestError (GET_pull ''octo'' ''hello'' ''7''))],
        world = \<lparr>pulls = [(''octo'', ''hello'', ''7'') \<mapsto> example_pull],
                 calls = [GET_pull ''octo'' ''hello'' ''7''], fails = (\<lambda>k. k = 0)\<rparr>\<rparr>
   \<and> getPullRequestSize ''7'' ''octo'' ''hello'' (example_remote (\<lambda>k. k = 1)) =
       (Inr (Some ''small''),
        \<lparr>pulls = [(''octo'', ''hello'', ''7'') \<mapsto> example_pull],
         calls = [GET_pull ''octo'' ''hello'' ''7''], fails = (\<lambda>k. k = 1)\<rparr>)
   \<and> labelPullRequestWithSize ''7'' ''octo'' ''hello'' (Some ''small'')
         \<lparr>pulls = [(''octo'', ''hello'', ''7'') \<mapsto> example_pull],
          calls = [GET_pull ''octo'' ''hello'' ''7''], fails = (\<lambda>k. k = 1)\<rparr> =
       (Inl (RequestError (POST_labels ''octo'' ''hello'' ''7'' [''small''])),
        \<lparr>pulls = [(''octo'', ''hello'', ''7'') \<mapsto> example_pull],
         calls = [GET_pull ''octo'' ''hello'' ''7'',
                  POST_labels ''octo'' ''hello'' ''7'' [''small'']],
         fails = (\<lambda>k. k = 1)\<rparr>)
   \<and> main example_env (example_remote (\<lambda>k. k = 1)) =
       \<lparr>exitCode = 1,
        stderr = [LineWith ''Error processing the pull request:''
                    (RequestError (POST_labels ''octo'' ''hello'' ''7'' [''small'']))],
        world = \<lparr>pulls = [(''octo'', ''hello'', ''7'') \<mapsto> example_pull],
                 calls = [GET_pull ''octo'' ''hello'' ''7'',
                          POST_labels ''octo'' ''hello'' ''7'' [''small'']],
                 fails = (\<lambda>k. k = 1)\<rparr>\<rparr>
   \<and> getPullRequestSize ''7'' ''octo'' ''hello'' (example_remote (\<lambda>k. False)) =
       (Inr (Some ''small''),
        \<lparr>pulls = [(''octo'', ''hello'', ''7'') \<mapsto> example_pull],
         calls = [GET_pull ''octo'' ''hello'' ''7''], fails = (\<lambda>k. False)\<rparr>)
   \<and> labelPullRequestWithSize ''7'' ''octo'' ''hello'' (Some ''small'')
         \<lparr>pulls = [(''octo'', ''hello'', ''7'') \<mapsto> example_pull],
          calls = [GET_pull ''octo'' ''hello'' ''7''], fails = (\<lambda>k. False)\<rparr> =
       (Inr (),
        \<lparr>pulls = [(''octo'', ''hello'', ''7'') \<mapsto> example_pull\<lparr>labels := [''small'', ''bug'']\<rparr>],
         calls = [GET_pull ''octo'' ''hello'' ''7'',
                  POST_labels ''octo'' ''hello'' ''7'' [''small''],
                  DELETE_label ''octo'' ''hello'' ''7'' ''medium''],
         fails = (\<lambda>k. False)\<rparr>)
   \<and> main example_env (example_remote (\<lambda>k. False)) =
       \<lparr>exitCode = 0, stderr = [],
        world = \<lparr>pulls = [(''octo'', ''hello'', ''7'') \<mapsto>
                            example_pull\<lparr>labels := [''small'', ''bug'']\<rparr>],
                 calls = [GET_pull ''octo'' ''hello'' ''7'',
                          POST_labels ''octo'' ''hello'' ''7'' [''small''],
                          DELETE_label ''octo'' ''hello'' ''7'' ''medium''],
                 fails = (\<lambda>k. False)\<rparr>\<rparr>"
  (is "?e1 \<and> ?e2 \<and> ?e3 \<and> ?e4 \<and> ?n1 \<and> ?n2 \<and> ?n3 \<and> ?n4
       \<and> ?fa \<and> ?ma \<and> ?fb \<and> ?lb \<and> ?mb \<and> ?fc \<and> ?lc \<and> ?mc")
proof -
  have e1: ?e1 and e2: ?e2 and e3: ?e3 and e4: ?e4
    by (simp_all add: example_env_def)
  have n1: ?n1 and n2: ?n2 and n3: ?n3 and n4: ?n4
    by simp_all
  note boundary = C9_error_boundary [OF e1 e2 e3 e4 n1 n2 n3 n4]
  have fa: ?fa by (simp add: fetch_defs)
  have fb: ?fb by (simp add: fetch_defs)
  have fc: ?fc by (simp add: fetch_defs)
  have lb: ?lb by (simp add: run_defs)
  have lc: ?lc by (simp add: run_defs)
  from boundary [of "example_remote (\<lambda>k. k = 0)"] fa have ma: ?ma by simp
  from boundary [of "example_remote (\<lambda>k. k = 1)"] fb lb have mb: ?mb by simp
  from boundary [of "example_remote (\<lambda>k. False)"] fc lc have mc: ?mc by simp
  from e1 e2 e3 e4 n1 n2 n3 n4 fa ma fb lb mb fc lc mc show ?thesis
    by (intro conjI)
qed

end
